theory Spec2Isabelle
  imports Complex_Main
begin

section \<open>Tensors and framework errors\<close>

text \<open>
  The notebooks are scripts over the tensor library they import.  A tensor is modelled
  as the library stores it: a shape and the entries in row-major order.  A tensor of
  this type is a container of values: its entries are drawn, stored, copied and
  compared, and where the library computes new entries from them, that computation is
  left open.
\<close>

datatype tensor = Tensor (shape: "nat list") (entries: "real list")

definition numel :: "tensor \<Rightarrow> nat" where
  "numel t = prod_list (shape t)"

definition wf_tensor :: "tensor \<Rightarrow> bool" where
  "wf_tensor t = (length (entries t) = numel t)"

text \<open>
  Parameter names of a \<open>Network\<close> module, as the notebook prints them:
  \<open>hidden_layers.k.weight\<close>, \<open>hidden_layers.k.bias\<close>, \<open>output.weight\<close>,
  \<open>output.bias\<close>.
\<close>

datatype pname =
    hidden_layers_weight nat
  | hidden_layers_bias nat
  | output_weight
  | output_bias

text \<open>The lines of the message \<open>load_state_dict\<close> raises with.\<close>

datatype load_msg =
    Missing_keys "pname list"
  | Unexpected_keys "pname list"
  | size_mismatch pname "nat list" "nat list"

datatype reason =
    mm_size_mismatch "nat list" "nat list"
  | ambiguous_view "nat list"
  | grad_requires_scalar "nat list"
  | loading_state_dict "load_msg list"

datatype error =
    RuntimeError reason
  | KeyError string
  | FileNotFoundError string
  | TypeError
  | IndexError
  | ValueError
  | ZeroDivisionError

section \<open>Part 1: seeded data generation\<close>

text \<open>
  The library keeps one default random generator.  Its state is threaded explicitly;
  what the generator computes is left open: \<open>seeded\<close> is the state a seed puts it in,
  \<open>normal\<close> draws one standard normal value and advances the state.
\<close>

definition manual_seed :: "(int \<Rightarrow> 'g) \<Rightarrow> int \<Rightarrow> 'g \<Rightarrow> 'g" where
  "manual_seed seeded n g = seeded n"

primrec draws :: "('g \<Rightarrow> real \<times> 'g) \<Rightarrow> nat \<Rightarrow> 'g \<Rightarrow> real list \<times> 'g" where
  "draws normal 0 g = ([], g)"
| "draws normal (Suc k) g =
     (case normal g of (v, g1) \<Rightarrow> (case draws normal k g1 of (vs, g2) \<Rightarrow> (v # vs, g2)))"

definition torch_randn :: "('g \<Rightarrow> real \<times> 'g) \<Rightarrow> nat list \<Rightarrow> 'g \<Rightarrow> tensor \<times> 'g" where
  "torch_randn normal s g = (case draws normal (prod_list s) g of (vs, g') \<Rightarrow> (Tensor s vs, g'))"

definition torch_randn_like :: "('g \<Rightarrow> real \<times> 'g) \<Rightarrow> tensor \<Rightarrow> 'g \<Rightarrow> tensor \<times> 'g" where
  "torch_randn_like normal t g = torch_randn normal (shape t) g"

text \<open>
  \<^verbatim>\<open>torch.manual_seed(7)\<close>
  \<^verbatim>\<open>features = torch.randn((1, 5))\<close>
  \<^verbatim>\<open>weights = torch.randn_like(features)\<close>
  \<^verbatim>\<open>bias = torch.randn((1, 1))\<close>
  The cell returns the three tensors and the generator state it leaves behind.
\<close>

definition generate_data ::
  "(int \<Rightarrow> 'g) \<Rightarrow> ('g \<Rightarrow> real \<times> 'g) \<Rightarrow> 'g \<Rightarrow> (tensor \<times> tensor \<times> tensor) \<times> 'g" where
  "generate_data seeded normal g0 =
     (case torch_randn normal [1, 5] (manual_seed seeded 7 g0) of
        (features, g1) \<Rightarrow>
          (case torch_randn_like normal features g1 of
             (weights, g2) \<Rightarrow>
               (case torch_randn normal [1, 1] g2 of
                  (bias, g3) \<Rightarrow> ((features, weights, bias), g3))))"

section \<open>The networks the notebooks define inline\<close>

text \<open>
  A network is the list of its modules, in the order the data passes through them.
  \<open>Linear a b\<close> is a linear transformation with bias from \<open>a\<close> to \<open>b\<close> features.
\<close>

datatype module = Linear nat nat | ReLU | Sigmoid | Dropout real | LogSoftmax nat

subsection \<open>Part 1\<close>




subsection \<open>Part 3\<close>




definition model_training :: "module list" where
  "model_training =
     [Linear 784 128, ReLU, Linear 128 64, ReLU, Linear 64 10, LogSoftmax 1]"


subsection \<open>Structure\<close>







section \<open>Part 3: the training loop\<close>

text \<open>
  The loop calls the framework.  A call either raises or returns, and a call that returns
  is recorded in a trace, in the order the calls are made, with the tensors that pass
  between the calls: the output of the forward pass, the loss the criterion returns, the
  loss the backward pass is called on, the number \<open>item\<close> reads.
\<close>

datatype event =
    View
  | ZeroGrad
  | Forward tensor
  | Criterion tensor
  | Backward tensor
  | Step
  | Item real
  | Print real

text \<open>
  The state the loop works on: the parameters of the model (flattened), their \<open>.grad\<close>
  (absent before the first backward pass), the running loss and the trace.
\<close>

record trainer =
  parameters :: "real list"
  grad :: "real list option"
  running_loss :: real
  trace :: "event list"

text \<open>
  The numbers the library and the interpreter compute are left open: \<open>outputs\<close> gives
  the entries of the network's output, by position, for the current parameters and a
  batch of inputs, \<open>reduce\<close> is the reduction of the per-sample losses to one number, \<open>gradient\<close> is the
  gradient of the batch loss with respect to the parameters, \<open>accumulate\<close> is the sum of a
  stored gradient and a new one, \<open>sgd\<close> is the update of the parameters by a learning rate
  and a gradient, \<open>float_add\<close> and \<open>float_div\<close> are the sum and the quotient of two
  Python floats.  When a call raises is not left open: it depends on the shapes, which
  are modelled.
\<close>

datatype reduction = reduction_none | reduction_mean | reduction_sum

record framework =
  outputs :: "real list \<Rightarrow> tensor \<Rightarrow> nat \<Rightarrow> real"
  reduce :: "reduction \<Rightarrow> real list \<Rightarrow> real"
  gradient :: "real list \<Rightarrow> tensor \<Rightarrow> nat list \<Rightarrow> real list"
  accumulate :: "real list \<Rightarrow> real list \<Rightarrow> real list"
  sgd :: "real \<Rightarrow> real list \<Rightarrow> real list \<Rightarrow> real list"
  float_add :: "real \<Rightarrow> real \<Rightarrow> real"
  float_div :: "real \<Rightarrow> real \<Rightarrow> real"

definition emit :: "event \<Rightarrow> trainer \<Rightarrow> trainer" where
  "emit e s = s\<lparr>trace := trace s @ [e]\<rparr>"

subsection \<open>The calls\<close>

text \<open>
  \<^verbatim>\<open>images.view(images.shape[0], -1)\<close> keeps the first dimension and flattens the
  others.  A tensor without dimensions has no \<open>shape[0]\<close>, and with a first dimension of
  0 the size \<open>-1\<close> stands for cannot be inferred.
\<close>

definition images_view :: "tensor \<Rightarrow> trainer \<Rightarrow> error + tensor \<times> trainer" where
  "images_view images s =
     (case shape images of
        [] \<Rightarrow> Inl IndexError
      | n # rest \<Rightarrow>
          if n = 0 then Inl (RuntimeError (ambiguous_view (shape images)))
          else Inr (Tensor [n, prod_list rest] (entries images), emit View s))"

text \<open>
  The shape a module gives its output, or the error it raises.  A linear transformation
  works on the last dimension of its input, which must have its number of input
  features; a log-softmax needs the dimension it is taken over.
\<close>

fun module_shape :: "module \<Rightarrow> nat list \<Rightarrow> error + nat list" where
  "module_shape (Linear a b) s =
     (if s \<noteq> [] \<and> last s = a then Inr (butlast s @ [b])
      else Inl (RuntimeError (mm_size_mismatch s [a, b])))"
| "module_shape (LogSoftmax d) s = (if d < length s then Inr s else Inl IndexError)"
| "module_shape m s = Inr s"

fun sequential_shape :: "module list \<Rightarrow> nat list \<Rightarrow> error + nat list" where
  "sequential_shape [] s = Inr s"
| "sequential_shape (m # ms) s =
     (case module_shape m s of
        Inl e \<Rightarrow> Inl e
      | Inr s' \<Rightarrow> sequential_shape ms s')"

text \<open>\<^verbatim>\<open>logits = model(images)\<close>, for a model that is an \<open>nn.Sequential\<close>.\<close>

definition model_call ::
  "module list \<Rightarrow> framework \<Rightarrow> tensor \<Rightarrow> trainer \<Rightarrow> error + tensor \<times> trainer" where
  "model_call net fw images s =
     (case sequential_shape net (shape images) of
        Inl e \<Rightarrow> Inl e
      | Inr out \<Rightarrow>
          (let logits = Tensor out (map (outputs fw (parameters s) images) [0..<prod_list out])
           in Inr (logits, emit (Forward logits) s)))"

text \<open>
  \<open>nn.NLLLoss\<close> on a matrix of log-probabilities, one row per sample, and one class
  index per sample.  The loss of a sample is the negated log-probability of its class.
  The number of class indices must be the number of rows and every index a column.  The
  notebook keeps the default reduction, the mean, whose result has no dimension.  The
  loop passes the criterion matrices only.
\<close>

definition NLLLoss :: "reduction \<Rightarrow> framework \<Rightarrow> tensor \<Rightarrow> nat list \<Rightarrow> error + tensor" where
  "NLLLoss red fw input target =
     (case shape input of
        [n, c] \<Rightarrow>
          if length target \<noteq> n then Inl ValueError
          else if list_ex (\<lambda>t. c \<le> t) target then Inl IndexError
          else
            (let l = map (\<lambda>i. - (entries input ! (i * c + target ! i))) [0..<n]
             in Inr (case red of
                       reduction_none \<Rightarrow> Tensor [n] l
                     | reduction_mean \<Rightarrow> Tensor [] [reduce fw reduction_mean l]
                     | reduction_sum \<Rightarrow> Tensor [] [reduce fw reduction_sum l]))
      | _ \<Rightarrow> Inl ValueError)"

text \<open>\<^verbatim>\<open>loss = criterion(logits, labels)\<close> with \<^verbatim>\<open>criterion = nn.NLLLoss()\<close>\<close>

definition criterion_call ::
  "framework \<Rightarrow> tensor \<Rightarrow> nat list \<Rightarrow> trainer \<Rightarrow> error + tensor \<times> trainer" where
  "criterion_call fw logits labels s =
     (case NLLLoss reduction_mean fw logits labels of
        Inl e \<Rightarrow> Inl e
      | Inr loss \<Rightarrow> Inr (loss, emit (Criterion loss) s))"

text \<open>
  \<open>optimizer.zero_grad()\<close> sets every gradient that exists to zero, as the library of
  the notebook does.
\<close>

definition optimizer_zero_grad :: "trainer \<Rightarrow> trainer" where
  "optimizer_zero_grad s = emit ZeroGrad (s\<lparr>grad := map_option (map (\<lambda>_. 0)) (grad s)\<rparr>)"

text \<open>
  \<open>loss.backward()\<close> adds the gradient of the loss to \<open>.grad\<close>, and is refused for a loss
  of more than one element.
\<close>

definition loss_backward ::
  "framework \<Rightarrow> tensor \<Rightarrow> tensor \<Rightarrow> nat list \<Rightarrow> trainer \<Rightarrow> error + trainer" where
  "loss_backward fw loss images labels s =
     (if numel loss \<noteq> 1 then Inl (RuntimeError (grad_requires_scalar (shape loss)))
      else
        (let g = gradient fw (parameters s) images labels
         in Inr (emit (Backward loss)
                   (s\<lparr>grad := (case grad s of
                                  None \<Rightarrow> Some g
                                | Some old \<Rightarrow> Some (accumulate fw old g))\<rparr>))))"

text \<open>\<open>optimizer.step()\<close> of \<open>optim.SGD\<close>: every parameter with a gradient moves against it.\<close>

definition optimizer_step :: "framework \<Rightarrow> real \<Rightarrow> trainer \<Rightarrow> trainer" where
  "optimizer_step fw lr s =
     emit Step
       (case grad s of
          None \<Rightarrow> s
        | Some g \<Rightarrow> s\<lparr>parameters := sgd fw lr (parameters s) g\<rparr>)"

text \<open>\<open>loss.item()\<close> reads the number of a tensor of one element.\<close>

definition item :: "tensor \<Rightarrow> trainer \<Rightarrow> error + real \<times> trainer" where
  "item t s =
     (case entries t of
        [v] \<Rightarrow> Inr (v, emit (Item v) s)
      | _ \<Rightarrow> Inl ValueError)"

subsection \<open>The loop\<close>

text \<open>
  The body of the inner loop:
  \<^verbatim>\<open>images = images.view(images.shape[0], -1)\<close>
  \<^verbatim>\<open>optimizer.zero_grad()\<close>
  \<^verbatim>\<open>logits = model(images)\<close>
  \<^verbatim>\<open>loss = criterion(logits, labels)\<close>
  \<^verbatim>\<open>loss.backward()\<close>
  \<^verbatim>\<open>optimizer.step()\<close>
  \<^verbatim>\<open>running_loss += loss.item()\<close>
  A call that raises ends the pass, and with it the loop, with its error.
\<close>

definition training_pass ::
  "module list \<Rightarrow> framework \<Rightarrow> real \<Rightarrow> tensor \<times> nat list \<Rightarrow> trainer \<Rightarrow> error + trainer" where
  "training_pass net fw lr batch s =
     (case images_view (fst batch) s of
        Inl e \<Rightarrow> Inl e
      | Inr (images, s1) \<Rightarrow>
     (case model_call net fw images (optimizer_zero_grad s1) of
        Inl e \<Rightarrow> Inl e
      | Inr (logits, s2) \<Rightarrow>
     (case criterion_call fw logits (snd batch) s2 of
        Inl e \<Rightarrow> Inl e
      | Inr (loss, s3) \<Rightarrow>
     (case loss_backward fw loss images (snd batch) s3 of
        Inl e \<Rightarrow> Inl e
      | Inr s4 \<Rightarrow>
     (case item loss (optimizer_step fw lr s4) of
        Inl e \<Rightarrow> Inl e
      | Inr (v, s5) \<Rightarrow> Inr (s5\<lparr>running_loss := float_add fw (running_loss s5) v\<rparr>))))))"

fun batch_loop ::
  "module list \<Rightarrow> framework \<Rightarrow> real \<Rightarrow> (tensor \<times> nat list) list \<Rightarrow> trainer
     \<Rightarrow> error + trainer" where
  "batch_loop net fw lr [] s = Inr s"
| "batch_loop net fw lr (b # bs) s =
     (case training_pass net fw lr b s of
        Inl e \<Rightarrow> Inl e
      | Inr s' \<Rightarrow> batch_loop net fw lr bs s')"

text \<open>
  One epoch: the running loss starts at 0, the loader's batches are passed through, and
  the \<open>else\<close> of the \<open>for\<close> prints \<open>running_loss/len(trainloader)\<close>, which divides by the
  number of batches.
\<close>

definition epoch ::
  "module list \<Rightarrow> framework \<Rightarrow> real \<Rightarrow> (tensor \<times> nat list) list \<Rightarrow> trainer
     \<Rightarrow> error + trainer" where
  "epoch net fw lr batches s =
     (case batch_loop net fw lr batches (s\<lparr>running_loss := 0\<rparr>) of
        Inl e \<Rightarrow> Inl e
      | Inr s' \<Rightarrow>
          if length batches = 0 then Inl ZeroDivisionError
          else Inr (emit (Print (float_div fw (running_loss s') (real (length batches)))) s'))"

text \<open>
  The loader shuffles: \<open>loader e\<close> is the sequence of batches it yields in the epoch
  numbered \<open>e\<close>.
\<close>

fun epoch_loop ::
  "module list \<Rightarrow> framework \<Rightarrow> real \<Rightarrow> (nat \<Rightarrow> (tensor \<times> nat list) list) \<Rightarrow> nat list
     \<Rightarrow> trainer \<Rightarrow> error + trainer" where
  "epoch_loop net fw lr loader [] s = Inr s"
| "epoch_loop net fw lr loader (e # es) s =
     (case epoch net fw lr (loader e) s of
        Inl x \<Rightarrow> Inl x
      | Inr s' \<Rightarrow> epoch_loop net fw lr loader es s')"

text \<open>
  The loop over the epochs starts with fresh parameters and no gradient.  The cell builds
  its model, \<^verbatim>\<open>nn.Sequential(nn.Linear(784, 128), ...)\<close>, whose parameters start at
  values the library draws, and runs
  \<^verbatim>\<open>optimizer = optim.SGD(model.parameters(), lr=0.003)\<close> for
  \<^verbatim>\<open>epochs = 5\<close>.
\<close>

definition train ::
  "module list \<Rightarrow> framework \<Rightarrow> real \<Rightarrow> nat \<Rightarrow> (nat \<Rightarrow> (tensor \<times> nat list) list)
     \<Rightarrow> real list \<Rightarrow> error + trainer" where
  "train net fw lr epochs loader initial =
     epoch_loop net fw lr loader [0..<epochs]
       \<lparr>parameters = initial, grad = None, running_loss = 0, trace = []\<rparr>"

definition training_cell ::
  "framework \<Rightarrow> (nat \<Rightarrow> (tensor \<times> nat list) list) \<Rightarrow> real list \<Rightarrow> error + trainer" where
  "training_cell fw loader initial = train model_training fw (3 / 1000) 5 loader initial"

subsection \<open>What the loop is expected to do\<close>

text \<open>
  A batch the cell's model and criterion accept: at least one image, 784 numbers per
  image, one label per image, every label one of the ten classes.  An epoch the cell
  gets through: at least one batch, every batch accepted.
\<close>

definition batch_ok :: "tensor \<times> nat list \<Rightarrow> bool" where
  "batch_ok batch =
     (case shape (fst batch) of
        [] \<Rightarrow> False
      | n # rest \<Rightarrow>
          0 < n \<and> prod_list rest = 784 \<and> length (snd batch) = n
          \<and> list_all (\<lambda>t. t < 10) (snd batch))"

definition epoch_ok :: "(tensor \<times> nat list) list \<Rightarrow> bool" where
  "epoch_ok batches = (batches \<noteq> [] \<and> list_all batch_ok batches)"

text \<open>
  The tensors of a pass, written out: the flattened images, the network's output of ten
  columns, and the loss, the reduction of the negated log-probabilities of the labels
  to a tensor without dimensions.
\<close>

definition flattened :: "tensor \<Rightarrow> tensor" where
  "flattened images =
     Tensor [hd (shape images), prod_list (tl (shape images))] (entries images)"

definition pass_logits :: "framework \<Rightarrow> real list \<Rightarrow> tensor \<times> nat list \<Rightarrow> tensor" where
  "pass_logits fw ps batch =
     Tensor [hd (shape (fst batch)), 10]
       (map (outputs fw ps (flattened (fst batch))) [0..<hd (shape (fst batch)) * 10])"

definition pass_loss :: "framework \<Rightarrow> real list \<Rightarrow> tensor \<times> nat list \<Rightarrow> tensor" where
  "pass_loss fw ps batch =
     Tensor []
       [reduce fw reduction_mean
          (map (\<lambda>i. - (entries (pass_logits fw ps batch) ! (i * 10 + snd batch ! i)))
             [0..<length (snd batch)])]"

text \<open>
  The steps of one pass, in order: the images are flattened, the gradients are zeroed,
  the forward pass gives the logits, the criterion gives the loss, the backward pass is
  run on that loss, the optimizer steps, and the number of the loss is read.
\<close>

definition pass_events :: "framework \<Rightarrow> real list \<Rightarrow> tensor \<times> nat list \<Rightarrow> event list" where
  "pass_events fw ps batch =
     [View, ZeroGrad, Forward (pass_logits fw ps batch), Criterion (pass_loss fw ps batch),
      Backward (pass_loss fw ps batch), Step, Item (entries (pass_loss fw ps batch) ! 0)]"

text \<open>
  The gradient after the backward pass of a batch: the gradient of the batch, added to
  the zeroed gradient of the pass before where there was one.
\<close>

definition pass_grad ::
  "framework \<Rightarrow> real list \<Rightarrow> real list option \<Rightarrow> tensor \<times> nat list \<Rightarrow> real list" where
  "pass_grad fw ps old batch =
     (case old of
        None \<Rightarrow> gradient fw ps (flattened (fst batch)) (snd batch)
      | Some g \<Rightarrow>
          accumulate fw (map (\<lambda>_. 0) g) (gradient fw ps (flattened (fst batch)) (snd batch)))"

text \<open>
  The state after a pass, after an epoch and after the loop, when no call raises: every
  pass adds its steps to the trace, keeps its gradient, moves the parameters by it and
  adds its loss to the running loss; every epoch ends with the print of the running
  loss divided by the number of batches.
\<close>

definition expected_pass :: "framework \<Rightarrow> real \<Rightarrow> tensor \<times> nat list \<Rightarrow> trainer \<Rightarrow> trainer" where
  "expected_pass fw lr batch s =
     \<lparr>parameters = sgd fw lr (parameters s) (pass_grad fw (parameters s) (grad s) batch),
      grad = Some (pass_grad fw (parameters s) (grad s) batch),
      running_loss =
        float_add fw (running_loss s) (entries (pass_loss fw (parameters s) batch) ! 0),
      trace = trace s @ pass_events fw (parameters s) batch\<rparr>"

definition expected_epoch ::
  "framework \<Rightarrow> real \<Rightarrow> (tensor \<times> nat list) list \<Rightarrow> trainer \<Rightarrow> trainer" where
  "expected_epoch fw lr batches s =
     (let s' = fold (expected_pass fw lr) batches (s\<lparr>running_loss := 0\<rparr>)
      in s'\<lparr>trace := trace s'
                  @ [Print (float_div fw (running_loss s') (real (length batches)))]\<rparr>)"

definition expected_train ::
  "framework \<Rightarrow> real \<Rightarrow> nat \<Rightarrow> (nat \<Rightarrow> (tensor \<times> nat list) list) \<Rightarrow> real list \<Rightarrow> trainer" where
  "expected_train fw lr epochs loader initial =
     fold (\<lambda>e. expected_epoch fw lr (loader e)) [0..<epochs]
       \<lparr>parameters = initial, grad = None, running_loss = 0, trace = []\<rparr>"

text \<open>
  The names of the calls of a trace, the names of one pass, and the names of a whole
  run, given the number of batches of every epoch.
\<close>

fun event_name :: "event \<Rightarrow> string" where
  "event_name View = ''view''"
| "event_name ZeroGrad = ''zero_grad''"
| "event_name (Forward logits) = ''forward''"
| "event_name (Criterion loss) = ''criterion''"
| "event_name (Backward loss) = ''backward''"
| "event_name Step = ''step''"
| "event_name (Item v) = ''item''"
| "event_name (Print v) = ''print''"

definition pass_steps :: "string list" where
  "pass_steps =
     [''view'', ''zero_grad'', ''forward'', ''criterion'', ''backward'', ''step'', ''item'']"

definition loop_steps :: "nat list \<Rightarrow> string list" where
  "loop_steps counts = concat (map (\<lambda>n. concat (replicate n pass_steps) @ [''print'']) counts)"

text \<open>The loss of a call of the criterion or of the backward pass has no dimension.\<close>

fun scalar_loss :: "event \<Rightarrow> bool" where
  "scalar_loss (Criterion loss) = (shape loss = [])"
| "scalar_loss (Backward loss) = (shape loss = [])"
| "scalar_loss _ = True"

section \<open>Part 6: saving and loading models\<close>

subsection \<open>The network module\<close>

text \<open>
  A linear layer owns a weight of shape \<open>[out_features, in_features]\<close> and a bias of shape
  \<open>[out_features]\<close>, the shapes the notebook's size-mismatch message reports.
\<close>

record linear =
  in_features :: nat
  out_features :: nat
  weight :: tensor
  bias :: tensor

record network =
  hidden_layers :: "linear list"
  output_layer :: linear
  dropout :: real

text \<open>
  The values a layer starts with are drawn at random by the library; \<open>init j\<close> stands for
  the values of the parameter numbered \<open>j\<close>.
\<close>

definition fresh :: "(nat \<Rightarrow> real) \<Rightarrow> nat list \<Rightarrow> tensor" where
  "fresh values s = Tensor s (map values [0..<prod_list s])"

definition nn_Linear :: "(nat \<Rightarrow> nat \<Rightarrow> real) \<Rightarrow> nat \<Rightarrow> nat \<Rightarrow> nat \<Rightarrow> linear" where
  "nn_Linear init k n_in n_out =
     \<lparr>in_features = n_in, out_features = n_out,
      weight = fresh (init (2 * k)) [n_out, n_in],
      bias = fresh (init (2 * k + 1)) [n_out]\<rparr>"

text \<open>
  Modelled from the spec: the constructor of \<open>fc_model.Network\<close>, whose module
  \<open>fc_model\<close> the notebook imports.  The specification describes a fully-connected
  feedforward classifier configured by an input size, a list of hidden sizes, an output
  size and a dropout probability; the notebook prints the modules of
  \<open>fc_model.Network(784, 10, [512, 256, 128])\<close> as the hidden layers \<open>784 \<rightarrow> 512\<close>,
  \<open>512 \<rightarrow> 256\<close>, \<open>256 \<rightarrow> 128\<close>, the output layer \<open>128 \<rightarrow> 10\<close> and \<open>Dropout(p=0.5)\<close>.
  Hidden layer \<open>k\<close> is the layer numbered \<open>k\<close>, the output layer comes after the last of
  them.
\<close>

fun hidden_chain :: "(nat \<Rightarrow> nat \<Rightarrow> real) \<Rightarrow> nat \<Rightarrow> nat \<Rightarrow> nat list \<Rightarrow> linear list" where
  "hidden_chain init k n_in [] = []"
| "hidden_chain init k n_in (h # hs) = nn_Linear init k n_in h # hidden_chain init (Suc k) h hs"

definition Network ::
  "(nat \<Rightarrow> nat \<Rightarrow> real) \<Rightarrow> nat \<Rightarrow> nat \<Rightarrow> nat list \<Rightarrow> real \<Rightarrow> network" where
  "Network init input_size output_size hidden drop_p =
     \<lparr>hidden_layers = hidden_chain init 0 input_size hidden,
      output_layer = nn_Linear init (length hidden) (last (input_size # hidden)) output_size,
      dropout = drop_p\<rparr>"

subsection \<open>State dicts\<close>

text \<open>
  \<open>model.state_dict()\<close> lists the parameters in the order the notebook prints their
  names.
\<close>

type_synonym state_dict = "(pname \<times> tensor) list"

fun hidden_state :: "nat \<Rightarrow> linear list \<Rightarrow> state_dict" where
  "hidden_state k [] = []"
| "hidden_state k (l # ls) =
     (hidden_layers_weight k, weight l) # (hidden_layers_bias k, bias l) # hidden_state (Suc k) ls"

definition state_dict :: "network \<Rightarrow> state_dict" where
  "state_dict m =
     hidden_state 0 (hidden_layers m)
       @ [(output_weight, weight (output_layer m)), (output_bias, bias (output_layer m))]"

text \<open>
  \<open>model.load_state_dict(state_dict)\<close> goes through the model's own parameters.  A
  parameter the state dict has with the same shape is overwritten, one it has with
  another shape is left alone and reported; names missing on either side are reported
  too.  With any report the call raises, after the parameters that matched have been
  overwritten; without one it returns the (empty) lists of incompatible keys.
\<close>

definition load_param :: "state_dict \<Rightarrow> pname \<Rightarrow> tensor \<Rightarrow> tensor \<times> load_msg list" where
  "load_param sd name param =
     (case map_of sd name of
        None \<Rightarrow> (param, [])
      | Some input_param \<Rightarrow>
          if shape input_param \<noteq> shape param
          then (param, [size_mismatch name (shape input_param) (shape param)])
          else (input_param, []))"

definition load_linear :: "state_dict \<Rightarrow> pname \<Rightarrow> pname \<Rightarrow> linear \<Rightarrow> linear \<times> load_msg list" where
  "load_linear sd wname bname l =
     (case load_param sd wname (weight l) of
        (w, e1) \<Rightarrow>
          (case load_param sd bname (bias l) of
             (b, e2) \<Rightarrow> (l\<lparr>weight := w, bias := b\<rparr>, e1 @ e2)))"

fun load_hidden :: "state_dict \<Rightarrow> nat \<Rightarrow> linear list \<Rightarrow> linear list \<times> load_msg list" where
  "load_hidden sd k [] = ([], [])"
| "load_hidden sd k (l # ls) =
     (case load_linear sd (hidden_layers_weight k) (hidden_layers_bias k) l of
        (l', e) \<Rightarrow>
          (case load_hidden sd (Suc k) ls of
             (ls', es) \<Rightarrow> (l' # ls', e @ es)))"

record incompatible_keys =
  missing_keys :: "pname list"
  unexpected_keys :: "pname list"

definition load_state_dict :: "network \<Rightarrow> state_dict \<Rightarrow> network \<times> (error + incompatible_keys)" where
  "load_state_dict m sd =
     (case load_hidden sd 0 (hidden_layers m) of
        (hs, e1) \<Rightarrow>
          (case load_linear sd output_weight output_bias (output_layer m) of
             (out, e2) \<Rightarrow>
               (let own = map fst (state_dict m);
                    missing = filter (\<lambda>k. map_of sd k = None) own;
                    unexpected = filter (\<lambda>k. k \<notin> set own) (map fst sd);
                    error_msgs =
                      (if missing = [] then [] else [Missing_keys missing])
                      @ (if unexpected = [] then [] else [Unexpected_keys unexpected])
                      @ e1 @ e2
                in (m\<lparr>hidden_layers := hs, output_layer := out\<rparr>,
                    if error_msgs = []
                    then Inr \<lparr>missing_keys = missing, unexpected_keys = unexpected\<rparr>
                    else Inl (RuntimeError (loading_state_dict error_msgs))))))"

subsection \<open>Files\<close>

text \<open>
  The notebook saves two kinds of objects: a state dict, and the checkpoint, a dict from
  strings to sizes, lists of sizes and a state dict.  A file system maps a path to the
  object saved there.
\<close>

datatype pyvalue = Size nat | Sizes "nat list" | StateDict state_dict

datatype pyobject = OrderedDict state_dict | Dict "(string \<times> pyvalue) list"

type_synonym files = "string \<rightharpoonup> pyobject"

definition torch_save :: "pyobject \<Rightarrow> string \<Rightarrow> files \<Rightarrow> files" where
  "torch_save obj path fs = fs(path \<mapsto> obj)"

definition torch_load :: "files \<Rightarrow> string \<Rightarrow> error + pyobject" where
  "torch_load fs path =
     (case fs path of
        None \<Rightarrow> Inl (FileNotFoundError path)
      | Some obj \<Rightarrow> Inr obj)"

text \<open>
  \<open>checkpoint[key]\<close> for a string key.  The keys of a state dict are parameter names,
  none of which is a key the notebook asks for.
\<close>

definition getitem :: "pyobject \<Rightarrow> string \<Rightarrow> error + pyvalue" where
  "getitem obj key =
     (case obj of
        OrderedDict sd \<Rightarrow> Inl (KeyError key)
      | Dict d \<Rightarrow>
          (case map_of d key of
             None \<Rightarrow> Inl (KeyError key)
           | Some v \<Rightarrow> Inr v))"

text \<open>
  Modelled from the spec: the call of the constructor of \<open>fc_model.Network\<close> on values
  read from a checkpoint, with the dropout probability left at its default, which the
  notebook prints as \<open>Dropout(p=0.5)\<close>.  The sizes must be sizes and the hidden layers a
  list of sizes.
\<close>

definition fc_model_Network ::
  "(nat \<Rightarrow> nat \<Rightarrow> real) \<Rightarrow> pyvalue \<Rightarrow> pyvalue \<Rightarrow> pyvalue \<Rightarrow> error + network" where
  "fc_model_Network init a b c =
     (case (a, b, c) of
        (Size input_size, Size output_size, Sizes hidden) \<Rightarrow>
          Inr (Network init input_size output_size hidden (1 / 2))
      | _ \<Rightarrow> Inl TypeError)"

definition as_state_dict :: "pyvalue \<Rightarrow> error + state_dict" where
  "as_state_dict v = (case v of StateDict sd \<Rightarrow> Inr sd | _ \<Rightarrow> Inl TypeError)"

subsection \<open>The checkpoint\<close>

text \<open>
  \<^verbatim>\<open>checkpoint = {'input_size': 784,\<close>
  \<^verbatim>\<open>              'output_size': 10,\<close>
  \<^verbatim>\<open>              'hidden_layers': [each.out_features for each in model.hidden_layers],\<close>
  \<^verbatim>\<open>              'state_dict': model.state_dict()}\<close>
\<close>

definition checkpoint :: "network \<Rightarrow> (string \<times> pyvalue) list" where
  "checkpoint m =
     [(''input_size'', Size 784),
      (''output_size'', Size 10),
      (''hidden_layers'', Sizes (map out_features (hidden_layers m))),
      (''state_dict'', StateDict (state_dict m))]"

text \<open>
  \<^verbatim>\<open>def load_checkpoint(filepath):\<close>
  \<^verbatim>\<open>    checkpoint = torch.load(filepath)\<close>
  \<^verbatim>\<open>    model = fc_model.Network(checkpoint['input_size'],\<close>
  \<^verbatim>\<open>                             checkpoint['output_size'],\<close>
  \<^verbatim>\<open>                             checkpoint['hidden_layers'])\<close>
  \<^verbatim>\<open>    model.load_state_dict(checkpoint['state_dict'])\<close>
  \<^verbatim>\<open>    return model\<close>
  Every step that raises ends the function with that error.
\<close>

definition load_checkpoint :: "(nat \<Rightarrow> nat \<Rightarrow> real) \<Rightarrow> files \<Rightarrow> string \<Rightarrow> error + network" where
  "load_checkpoint init fs filepath =
     (case torch_load fs filepath of
        Inl e \<Rightarrow> Inl e
      | Inr ckpt \<Rightarrow>
     (case getitem ckpt ''input_size'' of
        Inl e \<Rightarrow> Inl e
      | Inr a \<Rightarrow>
     (case getitem ckpt ''output_size'' of
        Inl e \<Rightarrow> Inl e
      | Inr b \<Rightarrow>
     (case getitem ckpt ''hidden_layers'' of
        Inl e \<Rightarrow> Inl e
      | Inr c \<Rightarrow>
     (case fc_model_Network init a b c of
        Inl e \<Rightarrow> Inl e
      | Inr net \<Rightarrow>
     (case getitem ckpt ''state_dict'' of
        Inl e \<Rightarrow> Inl e
      | Inr d \<Rightarrow>
     (case as_state_dict d of
        Inl e \<Rightarrow> Inl e
      | Inr sd \<Rightarrow>
     (case load_state_dict net sd of
        (net', Inl e) \<Rightarrow> Inl e
      | (net', Inr keys) \<Rightarrow> Inr net'))))))))"

subsection \<open>The cells that save and load\<close>

text \<open>The notebook's state: the variable \<open>model\<close> and the files on disk.\<close>

record notebook =
  model :: network
  files :: files

text \<open>
  \<^verbatim>\<open>checkpoint = {...}\<close>
  \<^verbatim>\<open>torch.save(checkpoint, 'checkpoint.pth')\<close>
\<close>

definition save_checkpoint_cell :: "notebook \<Rightarrow> notebook" where
  "save_checkpoint_cell nb =
     nb\<lparr>files := torch_save (Dict (checkpoint (model nb))) ''checkpoint.pth'' (files nb)\<rparr>"

text \<open>\<^verbatim>\<open>model = load_checkpoint('checkpoint.pth')\<close>\<close>

definition load_checkpoint_cell :: "(nat \<Rightarrow> nat \<Rightarrow> real) \<Rightarrow> notebook \<Rightarrow> error + notebook" where
  "load_checkpoint_cell init nb =
     (case load_checkpoint init (files nb) ''checkpoint.pth'' of
        Inl e \<Rightarrow> Inl e
      | Inr net \<Rightarrow> Inr (nb\<lparr>model := net\<rparr>))"

section \<open>Observations and example inputs\<close>

text \<open>The input and output width of every linear layer of a network, in order.\<close>

definition widths :: "network \<Rightarrow> (nat \<times> nat) list" where
  "widths m = map (\<lambda>l. (in_features l, out_features l)) (hidden_layers m @ [output_layer m])"

text \<open>
  Small inputs the theorems are instantiated at: a framework that computes in exact
  arithmetic, whose network puts out the sum of its parameters in every entry and whose
  gradient is 1 in every entry; a loader with one batch of two images of 28 by 28 pixels
  per epoch; and a generator that counts.
\<close>

definition example_framework :: framework where
  "example_framework =
     \<lparr>outputs = (\<lambda>ps x i. sum_list ps),
      reduce = (\<lambda>red l. sum_list l / real (length l)),
      gradient = (\<lambda>ps x ys. map (\<lambda>_. 1) ps),
      accumulate = map2 (+),
      sgd = (\<lambda>lr ps g. map2 (\<lambda>p d. p - lr * d) ps g),
      float_add = (+),
      float_div = (/)\<rparr>"

definition example_loader :: "nat \<Rightarrow> (tensor \<times> nat list) list" where
  "example_loader e = [(Tensor [2, 1, 28, 28] (replicate 1568 (real e)), [3, 7])]"

definition counting_normal :: "nat \<Rightarrow> real \<times> nat" where
  "counting_normal g = (real g, Suc g)"

definition zeros :: "nat \<Rightarrow> nat \<Rightarrow> real" where
  "zeros j i = 0"

definition ones :: "nat \<Rightarrow> nat \<Rightarrow> real" where
  "ones j i = 1"

text \<open>
  The state dict of the network the notebook trains, and a checkpoint file that pairs it
  with the hidden sizes of the second network the notebook builds.
\<close>

definition trained_state_dict :: state_dict where
  "trained_state_dict = state_dict (Network ones 784 10 [512, 256, 128] (1 / 2))"

definition mismatched_files :: files where
  "mismatched_files =
     [''checkpoint.pth'' \<mapsto>
        Dict [(''input_size'', Size 784), (''output_size'', Size 10),
              (''hidden_layers'', Sizes [400, 200, 100]),
              (''state_dict'', StateDict trained_state_dict)]]"

section \<open>Properties of Part 1\<close>

subsection \<open>Seeded generation\<close>

lemma length_draws: "length (fst (draws normal k g)) = k"
proof (induction k arbitrary: g)
  case 0
  then show ?case by simp
next
  case (Suc k)
  obtain v g1 where v: "normal g = (v, g1)" by fastforce
  obtain vs g2 where vs: "draws normal k g1 = (vs, g2)" by fastforce
  from Suc [of g1] vs have "length vs = k" by simp
  with v vs show ?case by simp
qed

lemma torch_randn_wf: "wf_tensor (fst (torch_randn normal s g)) \<and> shape (fst (torch_randn normal s g)) = s"
proof -
  obtain vs g' where vs: "draws normal (prod_list s) g = (vs, g')" by fastforce
  with length_draws [of normal "prod_list s" g] have "length vs = prod_list s" by simp
  with vs show ?thesis by (simp add: torch_randn_def wf_tensor_def numel_def)
qed

text \<open>
  Claim C9.  The data generation is deterministic under the fixed seed: two runs of the
  generation cell, started with the generator in any two states, produce the same
  features, weights and bias (and leave the generator in the same state), because the
  cell seeds the generator with 7 before it draws.  The tensors have the shapes
  \<open>[1, 5]\<close>, \<open>[1, 5]\<close> and \<open>[1, 1]\<close>.
\<close>

theorem generate_data_deterministic:
  "generate_data seeded normal g = generate_data seeded normal g'
   \<and> (case fst (generate_data seeded normal g) of
        (features, weights, b) \<Rightarrow>
          shape features = [1, 5] \<and> shape weights = [1, 5] \<and> shape b = [1, 1]
          \<and> wf_tensor features \<and> wf_tensor weights \<and> wf_tensor b)"
proof -
  let ?g = "manual_seed seeded 7 g"
  obtain features g1 where f: "torch_randn normal [1, 5] ?g = (features, g1)" by fastforce
  obtain weights g2 where w: "torch_randn normal (shape features) g1 = (weights, g2)" by fastforce
  obtain b g3 where b: "torch_randn normal [1, 1] g2 = (b, g3)" by fastforce
  from torch_randn_wf [of normal "[1, 5]" ?g] f
  have fs: "shape features = [1, 5]" "wf_tensor features" by simp_all
  from torch_randn_wf [of normal "shape features" g1] w fs
  have ws: "shape weights = [1, 5]" "wf_tensor weights" by simp_all
  from torch_randn_wf [of normal "[1, 1]" g2] b
  have bs: "shape b = [1, 1]" "wf_tensor b" by simp_all
  have "generate_data seeded normal g = ((features, weights, b), g3)"
    using f w b by (simp add: generate_data_def torch_randn_like_def)
  moreover have "generate_data seeded normal g' = generate_data seeded normal g"
    by (simp add: generate_data_def manual_seed_def)
  ultimately show ?thesis using fs ws bs by simp
qed

theorem generate_data_deterministic_witness:
  "generate_data nat counting_normal 0 = generate_data nat counting_normal 100
   \<and> fst (generate_data nat counting_normal 100)
       = (Tensor [1, 5] [7, 8, 9, 10, 11], Tensor [1, 5] [12, 13, 14, 15, 16], Tensor [1, 1] [17])"
proof -
  have "fst (generate_data nat counting_normal 0)
       = (Tensor [1, 5] [7, 8, 9, 10, 11], Tensor [1, 5] [12, 13, 14, 15, 16], Tensor [1, 1] [17])"
    by (simp add: generate_data_def manual_seed_def torch_randn_def torch_randn_like_def
        counting_normal_def eval_nat_numeral)
  with generate_data_deterministic [of nat counting_normal 0 100] show ?thesis by simp
qed

section \<open>Properties of the inline networks\<close>




section \<open>Properties of Part 3\<close>

subsection \<open>The training loop\<close>

lemma emit_simps [simp]:
  "trace (emit e s) = trace s @ [e]" "parameters (emit e s) = parameters s"
  "grad (emit e s) = grad s" "running_loss (emit e s) = running_loss s"
  by (simp_all add: emit_def)

lemma images_view_ok:
  assumes "batch_ok b"
  shows "images_view (fst b) s = Inr (flattened (fst b), emit View s)"
    and "shape (flattened (fst b)) = [hd (shape (fst b)), 784]"
  using assms
  by (auto simp: batch_ok_def images_view_def flattened_def split: list.splits)

lemma model_training_shape: "sequential_shape model_training [n, 784] = Inr [n, 10]"
  by (simp add: model_training_def)

lemma model_call_ok:
  assumes "shape x = [n, 784]"
  shows "model_call model_training fw x s
           = Inr (Tensor [n, 10] (map (outputs fw (parameters s) x) [0..<n * 10]),
                  emit (Forward (Tensor [n, 10] (map (outputs fw (parameters s) x) [0..<n * 10]))) s)"
  using assms by (simp add: model_call_def model_training_shape Let_def)

lemma labels_in_range: "list_all (\<lambda>t. t < c) ts \<Longrightarrow> \<not> list_ex (\<lambda>t. c \<le> (t::nat)) ts"
  by (auto simp: list_all_iff list_ex_iff)

lemma NLLLoss_mean_ok:
  assumes "shape logits = [n, c]" and "length ts = n" and "list_all (\<lambda>t. t < c) ts"
  shows "NLLLoss reduction_mean fw logits ts
           = Inr (Tensor [] [reduce fw reduction_mean
                               (map (\<lambda>i. - (entries logits ! (i * c + ts ! i))) [0..<n])])"
  using assms labels_in_range [of c ts] by (simp add: NLLLoss_def)

text \<open>A pass on an accepted batch raises nothing and does what is expected of it.\<close>

lemma training_pass_ok:
  assumes ok: "batch_ok b"
  shows "training_pass model_training fw lr b s = Inr (expected_pass fw lr b s)"
proof -
  let ?x = "flattened (fst b)"
  let ?n = "hd (shape (fst b))"
  let ?g = "pass_grad fw (parameters s) (grad s) b"
  let ?logits = "pass_logits fw (parameters s) b"
  let ?l = "pass_loss fw (parameters s) b"
  have labels: "length (snd b) = ?n" "list_all (\<lambda>t. t < 10) (snd b)"
    using ok by (auto simp: batch_ok_def split: list.splits)
  have view: "images_view (fst b) s = Inr (?x, emit View s)" and x: "shape ?x = [?n, 784]"
    using images_view_ok [OF ok] by simp_all
  let ?s1 = "optimizer_zero_grad (emit View s)"
  have p1: "parameters ?s1 = parameters s"
    by (simp add: optimizer_zero_grad_def)
  let ?s2 = "emit (Forward ?logits) ?s1"
  have fwd: "model_call model_training fw ?x ?s1 = Inr (?logits, ?s2)"
    using model_call_ok [OF x, of fw ?s1] by (simp add: p1 pass_logits_def)
  have loss: "NLLLoss reduction_mean fw ?logits (snd b) = Inr ?l"
    using NLLLoss_mean_ok [of ?logits ?n 10 "snd b" fw] labels
    by (simp add: pass_logits_def pass_loss_def)
  let ?s3 = "emit (Criterion ?l) ?s2"
  have crit: "criterion_call fw ?logits (snd b) ?s2 = Inr (?l, ?s3)"
    by (simp add: criterion_call_def loss)
  have numel: "numel ?l = 1"
    by (simp add: pass_loss_def numel_def)
  have acc: "(case grad ?s3 of
                None \<Rightarrow> Some (gradient fw (parameters ?s3) ?x (snd b))
              | Some old \<Rightarrow> Some (accumulate fw old (gradient fw (parameters ?s3) ?x (snd b))))
             = Some ?g"
    by (cases "grad s") (simp_all add: optimizer_zero_grad_def pass_grad_def)
  let ?s4 = "emit (Backward ?l) (?s3\<lparr>grad := Some ?g\<rparr>)"
  have bwd: "loss_backward fw ?l ?x (snd b) ?s3 = Inr ?s4"
    by (simp only: loss_backward_def numel acc Let_def) simp
  have "training_pass model_training fw lr b s
          = (case item ?l (optimizer_step fw lr ?s4) of
               Inl e \<Rightarrow> Inl e
             | Inr (v, s5) \<Rightarrow> Inr (s5\<lparr>running_loss := float_add fw (running_loss s5) v\<rparr>))"
    by (simp only: training_pass_def view fwd crit bwd sum.case prod.case)
  then show ?thesis
    by (simp add: item_def pass_loss_def optimizer_step_def optimizer_zero_grad_def pass_events_def
        expected_pass_def emit_def)
qed

text \<open>A pass on any other batch raises.\<close>

lemma training_pass_rejects:
  assumes "\<not> batch_ok b"
  shows "\<exists>e. training_pass model_training fw lr b s = Inl e"
proof (cases "shape (fst b)")
  case Nil
  then show ?thesis by (simp add: training_pass_def images_view_def)
next
  case (Cons n rest)
  show ?thesis
  proof (cases "n = 0")
    case True
    with Cons show ?thesis by (simp add: training_pass_def images_view_def)
  next
    case False
    let ?x = "Tensor [n, prod_list rest] (entries (fst b))"
    have view: "images_view (fst b) s = Inr (?x, emit View s)"
      using Cons False by (simp add: images_view_def)
    show ?thesis
    proof (cases "prod_list rest = 784")
      case wrong: False
      then have "sequential_shape model_training [n, prod_list rest]
                   = Inl (RuntimeError (mm_size_mismatch [n, prod_list rest] [784, 128]))"
        by (simp add: model_training_def)
      then show ?thesis
        by (simp add: training_pass_def view model_call_def)
    next
      case True
      then have x: "shape ?x = [n, 784]" by simp
      let ?s1 = "optimizer_zero_grad (emit View s)"
      let ?logits = "Tensor [n, 10] (map (outputs fw (parameters ?s1) ?x) [0..<n * 10])"
      note fwd = model_call_ok [OF x, of fw ?s1]
      from assms Cons False True
      have "length (snd b) \<noteq> n \<or> \<not> list_all (\<lambda>t. t < 10) (snd b)"
        by (auto simp: batch_ok_def)
      then have "\<exists>e. NLLLoss reduction_mean fw ?logits (snd b) = Inl e"
        by (auto simp: NLLLoss_def list_all_iff list_ex_iff not_less)
      then obtain e where "criterion_call fw ?logits (snd b) (emit (Forward ?logits) ?s1) = Inl e"
        by (auto simp: criterion_call_def)
      with fwd show ?thesis
        by (simp add: training_pass_def view)
    qed
  qed
qed

lemma batch_loop_ok:
  assumes "list_all batch_ok bs"
  shows "batch_loop model_training fw lr bs s = Inr (fold (expected_pass fw lr) bs s)"
  using assms by (induction bs arbitrary: s) (simp_all add: training_pass_ok)

lemma batch_loop_rejects:
  assumes "\<not> list_all batch_ok bs"
  shows "\<exists>e. batch_loop model_training fw lr bs s = Inl e"
  using assms
proof (induction bs arbitrary: s)
  case Nil
  then show ?case by simp
next
  case (Cons b bs)
  show ?case
  proof (cases "training_pass model_training fw lr b s")
    case (Inl e)
    then show ?thesis by simp
  next
    case (Inr s1)
    with training_pass_rejects [of b fw lr s] have "batch_ok b" by auto
    with Cons.prems have "\<not> list_all batch_ok bs" by simp
    from Cons.IH [OF this, of s1] Inr show ?thesis by simp
  qed
qed

lemma epoch_accepts:
  assumes "epoch_ok bs"
  shows "epoch model_training fw lr bs s = Inr (expected_epoch fw lr bs s)"
  using assms
  by (simp add: epoch_ok_def epoch_def batch_loop_ok expected_epoch_def Let_def emit_def)

lemma epoch_rejects:
  assumes "\<not> epoch_ok bs"
  shows "\<exists>e. epoch model_training fw lr bs s = Inl e"
proof (cases "bs = []")
  case True
  then show ?thesis by (simp add: epoch_def)
next
  case False
  with assms have "\<not> list_all batch_ok bs" by (simp add: epoch_ok_def)
  from batch_loop_rejects [OF this, of fw lr "s\<lparr>running_loss := 0\<rparr>"]
  show ?thesis by (auto simp: epoch_def)
qed

lemma epoch_loop_ok:
  assumes "list_all (\<lambda>e. epoch_ok (loader e)) es"
  shows "epoch_loop model_training fw lr loader es s
           = Inr (fold (\<lambda>e. expected_epoch fw lr (loader e)) es s)"
  using assms by (induction es arbitrary: s) (simp_all add: epoch_accepts)

lemma epoch_loop_rejects:
  assumes "\<not> list_all (\<lambda>e. epoch_ok (loader e)) es"
  shows "\<exists>x. epoch_loop model_training fw lr loader es s = Inl x"
  using assms
proof (induction es arbitrary: s)
  case Nil
  then show ?case by simp
next
  case (Cons e es)
  show ?case
  proof (cases "epoch model_training fw lr (loader e) s")
    case (Inl x)
    then show ?thesis by simp
  next
    case (Inr s1)
    with epoch_rejects [of "loader e" fw lr s] have "epoch_ok (loader e)" by auto
    with Cons.prems have "\<not> list_all (\<lambda>e. epoch_ok (loader e)) es" by simp
    from Cons.IH [OF this, of s1] Inr show ?thesis by simp
  qed
qed

text \<open>
  The expected state, read off: the names of the calls in its trace, and the losses the
  criterion returns and the backward pass is called on.
\<close>

lemma expected_pass_trace [simp]:
  "trace (expected_pass fw lr b s) = trace s @ pass_events fw (parameters s) b"
  by (simp add: expected_pass_def)

lemma pass_events_names [simp]: "map event_name (pass_events fw ps b) = pass_steps"
  by (simp add: pass_events_def pass_steps_def)

lemma pass_events_scalar [simp]: "list_all scalar_loss (pass_events fw ps b)"
  by (simp add: pass_events_def pass_loss_def)

lemma expected_batches_names:
  "map event_name (trace (fold (expected_pass fw lr) bs s))
     = map event_name (trace s) @ concat (replicate (length bs) pass_steps)"
  by (induction bs arbitrary: s) simp_all

lemma expected_batches_scalar:
  "list_all scalar_loss (trace (fold (expected_pass fw lr) bs s))
     = list_all scalar_loss (trace s)"
  by (induction bs arbitrary: s) simp_all

lemma expected_epoch_names:
  "map event_name (trace (expected_epoch fw lr bs s))
     = map event_name (trace s) @ concat (replicate (length bs) pass_steps) @ [''print'']"
  by (simp add: expected_epoch_def Let_def expected_batches_names)

lemma expected_epoch_scalar:
  "list_all scalar_loss (trace (expected_epoch fw lr bs s)) = list_all scalar_loss (trace s)"
  by (simp add: expected_epoch_def Let_def expected_batches_scalar)

lemma expected_epochs_names:
  "map event_name (trace (fold (\<lambda>e. expected_epoch fw lr (loader e)) es s))
     = map event_name (trace s) @ loop_steps (map (\<lambda>e. length (loader e)) es)"
  by (induction es arbitrary: s) (simp_all add: loop_steps_def expected_epoch_names)

lemma expected_epochs_scalar:
  "list_all scalar_loss (trace (fold (\<lambda>e. expected_epoch fw lr (loader e)) es s))
     = list_all scalar_loss (trace s)"
  by (induction es arbitrary: s) (simp_all add: expected_epoch_scalar)

lemma expected_train_names:
  "map event_name (trace (expected_train fw lr epochs loader initial))
     = loop_steps (map (\<lambda>e. length (loader e)) [0..<epochs])"
  by (simp add: expected_train_def expected_epochs_names)

lemma expected_train_scalar:
  "list_all scalar_loss (trace (expected_train fw lr epochs loader initial))"
  by (simp add: expected_train_def expected_epochs_scalar)

text \<open>
  The loop, for any number of epochs and any learning rate: it gets through exactly
  when every epoch does.
\<close>

lemma train_steps:
  "if list_all (\<lambda>e. epoch_ok (loader e)) [0..<epochs]
   then \<exists>s. train model_training fw lr epochs loader initial = Inr s
          \<and> s = expected_train fw lr epochs loader initial
          \<and> map event_name (trace s) = loop_steps (map (\<lambda>e. length (loader e)) [0..<epochs])
          \<and> list_all scalar_loss (trace s)
   else \<exists>e. train model_training fw lr epochs loader initial = Inl e"
proof (cases "list_all (\<lambda>e. epoch_ok (loader e)) [0..<epochs]")
  case True
  then have "train model_training fw lr epochs loader initial
               = Inr (expected_train fw lr epochs loader initial)"
    by (simp add: train_def expected_train_def epoch_loop_ok)
  with True show ?thesis
    by (simp add: expected_train_names expected_train_scalar)
next
  case False
  then show ?thesis
    by (simp add: train_def epoch_loop_rejects)
qed

text \<open>
  Claim C3.  When every epoch has a batch and every batch is one the model and the
  criterion accept, the training cell raises nothing and ends in the expected state.
  Its trace has, for every epoch and every batch of the epoch, in order, exactly the steps
  of a pass (flatten the images, zero the gradients, forward pass, loss, backward pass,
  optimizer step, read the loss) and after the batches of every epoch one print, and
  nothing else; every loss the criterion returns and the backward pass is called on is a
  tensor without dimensions; the parameters are the result of the optimizer steps.
  Otherwise the cell raises: the loop handles no fault.
\<close>

theorem training_loop_steps:
  "if list_all (\<lambda>e. epoch_ok (loader e)) [0..<5]
   then \<exists>s. training_cell fw loader initial = Inr s
          \<and> s = expected_train fw (3 / 1000) 5 loader initial
          \<and> map event_name (trace s) = loop_steps (map (\<lambda>e. length (loader e)) [0..<5])
          \<and> list_all scalar_loss (trace s)
   else \<exists>e. training_cell fw loader initial = Inl e"
  unfolding training_cell_def by (rule train_steps)

text \<open>The cell itself, five epochs at learning rate 0.003, on the example loader.\<close>

theorem training_loop_steps_witness:
  "\<exists>s. training_cell example_framework example_loader [1, 2] = Inr s
       \<and> s = expected_train example_framework (3 / 1000) 5 example_loader [1, 2]
       \<and> map event_name (trace s) = loop_steps [1, 1, 1, 1, 1]
       \<and> list_all scalar_loss (trace s)"
  using training_loop_steps [of example_loader example_framework "[1, 2]"]
  by (simp add: epoch_ok_def example_loader_def batch_ok_def list_all_iff upt_rec)

section \<open>Properties of Part 6\<close>

subsection \<open>Parameter names\<close>

lemma hidden_state_keys:
  "length ls = length ls' \<Longrightarrow> map fst (hidden_state k ls) = map fst (hidden_state k ls')"
  by (induction ls ls' arbitrary: k rule: list_induct2) auto

lemma length_hidden_chain [simp]: "length (hidden_chain init k n hs) = length hs"
  by (induction hs arbitrary: k n) auto

lemma hidden_state_key_range:
  "name \<in> fst ` set (hidden_state k ls) \<Longrightarrow>
   (\<exists>j\<ge>k. name = hidden_layers_weight j \<or> name = hidden_layers_bias j)"
proof (induction ls arbitrary: k)
  case Nil
  then show ?case by simp
next
  case (Cons l ls)
  then consider "name = hidden_layers_weight k" | "name = hidden_layers_bias k"
    | "name \<in> fst ` set (hidden_state (Suc k) ls)" by auto
  then show ?case
  proof cases
    case 3
    from Cons.IH [OF this] obtain j
      where "Suc k \<le> j" and "name = hidden_layers_weight j \<or> name = hidden_layers_bias j"
      by blast
    then have "k \<le> j" by simp
    with \<open>name = hidden_layers_weight j \<or> name = hidden_layers_bias j\<close> show ?thesis by blast
  qed auto
qed

lemma hidden_state_later:
  assumes "j < k"
  shows "hidden_layers_weight j \<notin> fst ` set (hidden_state k ls)"
    and "hidden_layers_bias j \<notin> fst ` set (hidden_state k ls)"
proof -
  show "hidden_layers_weight j \<notin> fst ` set (hidden_state k ls)"
  proof
    assume "hidden_layers_weight j \<in> fst ` set (hidden_state k ls)"
    from hidden_state_key_range [OF this] assms show False by auto
  qed
  show "hidden_layers_bias j \<notin> fst ` set (hidden_state k ls)"
  proof
    assume "hidden_layers_bias j \<in> fst ` set (hidden_state k ls)"
    from hidden_state_key_range [OF this] assms show False by auto
  qed
qed

lemma hidden_state_no_output:
  "output_weight \<notin> fst ` set (hidden_state k ls)"
  "output_bias \<notin> fst ` set (hidden_state k ls)"
proof -
  show "output_weight \<notin> fst ` set (hidden_state k ls)"
  proof
    assume "output_weight \<in> fst ` set (hidden_state k ls)"
    from hidden_state_key_range [OF this] show False by auto
  qed
  show "output_bias \<notin> fst ` set (hidden_state k ls)"
  proof
    assume "output_bias \<in> fst ` set (hidden_state k ls)"
    from hidden_state_key_range [OF this] show False by auto
  qed
qed

lemma distinct_hidden_state: "distinct (map fst (hidden_state k ls))"
proof (induction ls arbitrary: k)
  case Nil
  then show ?case by simp
next
  case (Cons l ls)
  from hidden_state_later [of k "Suc k" ls] Cons.IH [of "Suc k"] show ?case by simp
qed

lemma distinct_state_dict: "distinct (map fst (state_dict m))"
  using hidden_state_no_output [of 0 "hidden_layers m"]
  by (simp add: state_dict_def distinct_hidden_state)

subsection \<open>Loading keeps the architecture\<close>

lemma load_linear_features:
  "in_features (fst (load_linear sd wn bn l)) = in_features l"
  "out_features (fst (load_linear sd wn bn l)) = out_features l"
  by (simp_all add: load_linear_def split: prod.splits)

lemma load_hidden_features:
  "map (\<lambda>l. (in_features l, out_features l)) (fst (load_hidden sd k ls))
     = map (\<lambda>l. (in_features l, out_features l)) ls"
proof (induction ls arbitrary: k)
  case Nil
  then show ?case by simp
next
  case (Cons l ls)
  from Cons.IH [of "Suc k"] load_linear_features [of sd "hidden_layers_weight k" "hidden_layers_bias k" l]
  show ?case by (simp split: prod.splits) (metis fst_conv)
qed

lemma load_state_dict_widths: "widths (fst (load_state_dict m sd)) = widths m"
  using load_hidden_features [of sd 0 "hidden_layers m"]
    load_linear_features [of sd output_weight output_bias "output_layer m"]
  by (simp add: widths_def load_state_dict_def Let_def split: prod.splits) (metis fst_conv)

subsection \<open>The constructor\<close>

lemma hidden_chain_widths:
  "map (\<lambda>l. (in_features l, out_features l)) (hidden_chain init k n hs) = zip (n # hs) hs"
  by (induction hs arbitrary: k n) (auto simp: nn_Linear_def)

lemma Network_widths: "widths (Network init i o' hs p) = zip (i # hs) (hs @ [o'])"
proof -
  have "zip (i # hs) (hs @ [o']) = zip (i # hs) hs @ [(last (i # hs), o')]"
    by (induction hs arbitrary: i) auto
  then show ?thesis
    by (simp add: widths_def Network_def hidden_chain_widths nn_Linear_def)
qed

subsection \<open>Loading a state dict of the same architecture\<close>

lemma load_param_same:
  "map_of sd name = Some t \<Longrightarrow> shape t = shape cur \<Longrightarrow> load_param sd name cur = (t, [])"
  by (simp add: load_param_def)

lemma load_linear_same:
  assumes "map_of sd wn = Some (weight (nn_Linear init0 k n h))"
    and "map_of sd bn = Some (bias (nn_Linear init0 k n h))"
  shows "load_linear sd wn bn (nn_Linear init1 k' n h) = (nn_Linear init0 k n h, [])"
proof -
  have "load_param sd wn (weight (nn_Linear init1 k' n h)) = (weight (nn_Linear init0 k n h), [])"
    by (rule load_param_same [OF assms(1)]) (simp add: nn_Linear_def fresh_def)
  moreover have "load_param sd bn (bias (nn_Linear init1 k' n h)) = (bias (nn_Linear init0 k n h), [])"
    by (rule load_param_same [OF assms(2)]) (simp add: nn_Linear_def fresh_def)
  ultimately show ?thesis
    by (simp add: load_linear_def nn_Linear_def)
qed

lemma load_hidden_same:
  assumes "\<forall>(name, t) \<in> set (hidden_state k (hidden_chain init0 k n hs)). map_of sd name = Some t"
  shows "load_hidden sd k (hidden_chain init1 k n hs) = (hidden_chain init0 k n hs, [])"
  using assms
proof (induction hs arbitrary: k n)
  case Nil
  then show ?case by simp
next
  case (Cons h hs)
  then have w: "map_of sd (hidden_layers_weight k) = Some (weight (nn_Linear init0 k n h))"
    and b: "map_of sd (hidden_layers_bias k) = Some (bias (nn_Linear init0 k n h))"
    and rest: "\<forall>(name, t) \<in> set (hidden_state (Suc k) (hidden_chain init0 (Suc k) h hs)).
                 map_of sd name = Some t"
    by simp_all
  from load_linear_same [OF w b, of init1 k] Cons.IH [OF rest] show ?case by simp
qed

lemma load_state_dict_same:
  "load_state_dict (Network init1 i o' hs q) (state_dict (Network init0 i o' hs p))
     = (Network init0 i o' hs q, Inr \<lparr>missing_keys = [], unexpected_keys = []\<rparr>)"
proof -
  let ?m0 = "Network init0 i o' hs p" and ?m1 = "Network init1 i o' hs q"
  let ?sd = "state_dict ?m0"
  have lookup: "map_of ?sd name = Some t" if "(name, t) \<in> set ?sd" for name t
    using that distinct_state_dict [of ?m0] by simp
  have keys: "map fst (state_dict ?m1) = map fst ?sd"
    using hidden_state_keys [of "hidden_chain init1 0 i hs" "hidden_chain init0 0 i hs" 0]
    by (simp add: state_dict_def Network_def)
  have hidden: "load_hidden ?sd 0 (hidden_chain init1 0 i hs) = (hidden_chain init0 0 i hs, [])"
  proof (rule load_hidden_same, clarify)
    fix name t
    assume "(name, t) \<in> set (hidden_state 0 (hidden_chain init0 0 i hs))"
    then have "(name, t) \<in> set ?sd" by (simp add: state_dict_def Network_def)
    then show "map_of ?sd name = Some t" by (rule lookup)
  qed
  let ?out0 = "nn_Linear init0 (length hs) (last (i # hs)) o'"
  have "(output_weight, weight ?out0) \<in> set ?sd" and "(output_bias, bias ?out0) \<in> set ?sd"
    by (simp_all add: state_dict_def Network_def)
  then have "map_of ?sd output_weight = Some (weight ?out0)"
    and "map_of ?sd output_bias = Some (bias ?out0)"
    by (simp_all only: lookup)
  then have out: "load_linear ?sd output_weight output_bias
               (nn_Linear init1 (length hs) (last (i # hs)) o') = (?out0, [])"
    by (rule load_linear_same)
  have missing: "filter (\<lambda>k. map_of ?sd k = None) (map fst ?sd) = []"
    by (auto simp: filter_empty_conv map_of_eq_None_iff)
  have unexpected: "filter (\<lambda>k. k \<notin> set (map fst ?sd)) (map fst ?sd) = []"
    by (auto simp: filter_empty_conv)
  show ?thesis
    unfolding load_state_dict_def keys
    using hidden out missing unexpected
    by (simp add: Network_def Let_def)
qed

subsection \<open>Loading a checkpoint\<close>

lemma load_checkpoint_on_dict:
  assumes "fs path = Some (Dict d)"
    and "map_of d ''input_size'' = Some (Size i)"
    and "map_of d ''output_size'' = Some (Size o')"
    and "map_of d ''hidden_layers'' = Some (Sizes hs)"
    and "map_of d ''state_dict'' = Some (StateDict sd)"
  shows "load_checkpoint init fs path =
           (case load_state_dict (Network init i o' hs (1 / 2)) sd of
              (net, Inl e) \<Rightarrow> Inl e
            | (net, Inr keys) \<Rightarrow> Inr net)"
  using assms
  by (simp add: load_checkpoint_def torch_load_def getitem_def fc_model_Network_def as_state_dict_def)

lemma hidden_chain_out_features: "map out_features (hidden_chain init k n hs) = hs"
  by (induction hs arbitrary: k n) (auto simp: nn_Linear_def)

lemma Network_out_features: "map out_features (hidden_layers (Network init i o' hs p)) = hs"
  by (simp add: Network_def hidden_chain_out_features)

lemma checkpoint_of_Network:
  "checkpoint (Network trained 784 10 hs p) =
     [(''input_size'', Size 784), (''output_size'', Size 10), (''hidden_layers'', Sizes hs),
      (''state_dict'', StateDict (state_dict (Network trained 784 10 hs p)))]"
  by (simp add: checkpoint_def Network_out_features)

lemma load_checkpoint_saved:
  "load_checkpoint init
     (torch_save (Dict [(''input_size'', Size i), (''output_size'', Size o'),
                        (''hidden_layers'', Sizes hs),
                        (''state_dict'', StateDict (state_dict (Network trained i o' hs p)))])
        path fs) path
   = Inr (Network trained i o' hs (1 / 2))"
proof -
  let ?d = "[(''input_size'', Size i), (''output_size'', Size o'), (''hidden_layers'', Sizes hs),
             (''state_dict'', StateDict (state_dict (Network trained i o' hs p)))]"
  have "load_checkpoint init (torch_save (Dict ?d) path fs) path =
          (case load_state_dict (Network init i o' hs (1 / 2)) (state_dict (Network trained i o' hs p)) of
             (net, Inl e) \<Rightarrow> Inl e
           | (net, Inr keys) \<Rightarrow> Inr net)"
    by (rule load_checkpoint_on_dict [where d = ?d]) (simp_all add: torch_save_def)
  also have "\<dots> = Inr (Network trained i o' hs (1 / 2))"
    by (simp add: load_state_dict_same)
  finally show ?thesis .
qed

text \<open>
  Claim C1.  Checkpoint round trip: for every model, saved by writing the checkpoint
  mapping of its input size, output size, hidden layer sizes and state dict to a file
  with \<open>torch.save\<close>, \<open>load_checkpoint\<close> on that file returns a model whose input size,
  hidden layer sizes, output size and parameter tensors equal those recorded in the
  checkpoint.
\<close>

theorem checkpoint_round_trip:
  fixes trained init :: "nat \<Rightarrow> nat \<Rightarrow> real" and i o' :: nat and hs :: "nat list" and p :: real
  defines "m \<equiv> Network trained i o' hs p"
  defines "saved \<equiv> Dict [(''input_size'', Size i), (''output_size'', Size o'),
                     (''hidden_layers'', Sizes (map out_features (hidden_layers m))),
                     (''state_dict'', StateDict (state_dict m))]"
  shows "\<exists>m'. load_checkpoint init (torch_save saved path fs) path = Inr m'
           \<and> widths m' = zip (i # hs) (hs @ [o'])
           \<and> map out_features (hidden_layers m') = hs
           \<and> state_dict m' = state_dict m"
proof -
  have "load_checkpoint init (torch_save saved path fs) path = Inr (Network trained i o' hs (1 / 2))"
    unfolding saved_def m_def Network_out_features by (rule load_checkpoint_saved)
  moreover have "state_dict (Network trained i o' hs (1 / 2)) = state_dict m"
    by (simp add: m_def state_dict_def Network_def)
  ultimately show ?thesis
    by (simp add: Network_widths Network_out_features)
qed

theorem checkpoint_round_trip_witness:
  "\<exists>nb. load_checkpoint_cell zeros
           (save_checkpoint_cell
              \<lparr>model = Network ones 784 10 [400, 200, 100] (1 / 2), files = Map.empty\<rparr>)
         = Inr nb
       \<and> widths (model nb) = [(784, 400), (400, 200), (200, 100), (100, 10)]
       \<and> map out_features (hidden_layers (model nb)) = [400, 200, 100]
       \<and> state_dict (model nb) = state_dict (Network ones 784 10 [400, 200, 100] (1 / 2))"
  using checkpoint_round_trip
    [where trained = ones and i = 784 and o' = 10 and hs = "[400, 200, 100]" and p = "1 / 2"
       and init = zeros and path = "''checkpoint.pth''" and fs = Map.empty]
  by (auto simp: load_checkpoint_cell_def save_checkpoint_cell_def checkpoint_def)

subsection \<open>Loading a state dict of another architecture\<close>

lemma load_param_mismatch:
  "map_of sd name = Some t \<Longrightarrow> shape t \<noteq> shape cur \<Longrightarrow>
   load_param sd name cur = (cur, [size_mismatch name (shape t) (shape cur)])"
  by (simp add: load_param_def)

lemma load_linear_reports:
  assumes "(name, cur) = (wn, weight l) \<or> (name, cur) = (bn, bias l)"
    and "map_of sd name = Some t" and "shape t \<noteq> shape cur"
  shows "size_mismatch name (shape t) (shape cur) \<in> set (snd (load_linear sd wn bn l))"
  using assms load_param_mismatch [of sd name t cur]
  by (auto simp: load_linear_def split: prod.splits)

lemma load_hidden_reports:
  assumes "(name, cur) \<in> set (hidden_state k ls)"
    and "map_of sd name = Some t" and "shape t \<noteq> shape cur"
  shows "size_mismatch name (shape t) (shape cur) \<in> set (snd (load_hidden sd k ls))"
  using assms(1)
proof (induction ls arbitrary: k)
  case Nil
  then show ?case by simp
next
  case (Cons l ls)
  then consider
      "(name, cur) = (hidden_layers_weight k, weight l) \<or> (name, cur) = (hidden_layers_bias k, bias l)"
    | "(name, cur) \<in> set (hidden_state (Suc k) ls)"
    by auto
  then show ?case
  proof cases
    case 1
    from load_linear_reports [OF this assms(2,3)] show ?thesis
      by (auto split: prod.splits)
  next
    case 2
    from Cons.IH [OF this] show ?thesis
      by (auto split: prod.splits)
  qed
qed

lemma load_state_dict_mismatch:
  assumes own: "(name, cur) \<in> set (state_dict m)"
    and rec: "map_of sd name = Some t" and differ: "shape t \<noteq> shape cur"
  shows "\<exists>msgs. snd (load_state_dict m sd) = Inl (RuntimeError (loading_state_dict msgs))
           \<and> size_mismatch name (shape t) (shape cur) \<in> set msgs"
proof -
  let ?msg = "size_mismatch name (shape t) (shape cur)"
  from own consider "(name, cur) \<in> set (hidden_state 0 (hidden_layers m))"
    | "(name, cur) = (output_weight, weight (output_layer m))
         \<or> (name, cur) = (output_bias, bias (output_layer m))"
    by (auto simp: state_dict_def)
  then have "?msg \<in> set (snd (load_hidden sd 0 (hidden_layers m)))
      \<or> ?msg \<in> set (snd (load_linear sd output_weight output_bias (output_layer m)))"
  proof cases
    case 1
    from load_hidden_reports [OF this rec differ] show ?thesis by simp
  next
    case 2
    from load_linear_reports [OF this rec differ] show ?thesis by simp
  qed
  then show ?thesis
    by (auto simp: load_state_dict_def Let_def split: prod.splits)
qed

text \<open>
  The error the notebook shows when the state dict of the trained network is loaded into
  \<open>fc_model.Network(784, 10, [400, 200, 100])\<close>: every parameter but \<open>output.bias\<close> is
  reported.
\<close>

lemma notebook_load_size_mismatch:
  "snd (load_state_dict (Network zeros 784 10 [400, 200, 100] (1 / 2)) trained_state_dict)
     = Inl (RuntimeError (loading_state_dict
         [size_mismatch (hidden_layers_weight 0) [512, 784] [400, 784],
          size_mismatch (hidden_layers_bias 0) [512] [400],
          size_mismatch (hidden_layers_weight 1) [256, 512] [200, 400],
          size_mismatch (hidden_layers_bias 1) [256] [200],
          size_mismatch (hidden_layers_weight 2) [128, 256] [100, 200],
          size_mismatch (hidden_layers_bias 2) [128] [100],
          size_mismatch output_weight [10, 128] [10, 100]]))"
  by (simp add: load_state_dict_def trained_state_dict_def state_dict_def Network_def
      nn_Linear_def fresh_def load_linear_def load_param_def Let_def)

text \<open>
  Claim C2.  For a checkpoint whose state dict records, for some parameter, a tensor of
  another shape than the architecture the checkpoint names gives that parameter,
  \<open>load_state_dict\<close> raises the framework's error, which reports the mismatch, and
  \<open>load_checkpoint\<close> ends with exactly that error: it adds no recovery, retry or
  validation of its own.
\<close>

theorem shape_mismatch_propagates:
  assumes stored: "fs path = Some (Dict d)"
    and a: "map_of d ''input_size'' = Some (Size i)"
    and b: "map_of d ''output_size'' = Some (Size o')"
    and c: "map_of d ''hidden_layers'' = Some (Sizes hs)"
    and d: "map_of d ''state_dict'' = Some (StateDict sd)"
    and own: "(name, cur) \<in> set (state_dict (Network init i o' hs (1 / 2)))"
    and rec: "map_of sd name = Some t"
    and differ: "shape t \<noteq> shape cur"
  shows "\<exists>msgs. snd (load_state_dict (Network init i o' hs (1 / 2)) sd)
                  = Inl (RuntimeError (loading_state_dict msgs))
           \<and> size_mismatch name (shape t) (shape cur) \<in> set msgs
           \<and> load_checkpoint init fs path = Inl (RuntimeError (loading_state_dict msgs))"
proof -
  from load_state_dict_mismatch [OF own rec differ] obtain msgs
    where raised: "snd (load_state_dict (Network init i o' hs (1 / 2)) sd)
                     = Inl (RuntimeError (loading_state_dict msgs))"
      and msg: "size_mismatch name (shape t) (shape cur) \<in> set msgs"
    by blast
  from load_checkpoint_on_dict [where fs = fs and path = path and init = init, OF stored a b c d] raised
  have "load_checkpoint init fs path = Inl (RuntimeError (loading_state_dict msgs))"
    by (simp split: prod.splits)
  with raised msg show ?thesis by blast
qed

theorem shape_mismatch_propagates_witness:
  "\<exists>msgs. snd (load_state_dict (Network zeros 784 10 [400, 200, 100] (1 / 2)) trained_state_dict)
                  = Inl (RuntimeError (loading_state_dict msgs))
           \<and> size_mismatch (hidden_layers_weight 0) [512, 784] [400, 784] \<in> set msgs
           \<and> load_checkpoint zeros mismatched_files ''checkpoint.pth''
               = Inl (RuntimeError (loading_state_dict msgs))"
  using shape_mismatch_propagates
    [where fs = mismatched_files and path = "''checkpoint.pth''" and i = 784 and o' = 10
       and hs = "[400, 200, 100]" and sd = trained_state_dict and init = zeros
       and name = "hidden_layers_weight 0" and cur = "weight (nn_Linear zeros 0 784 400)"
       and t = "weight (nn_Linear ones 0 784 512)"
       and d = "[(''input_size'', Size 784), (''output_size'', Size 10),
              (''hidden_layers'', Sizes [400, 200, 100]),
              (''state_dict'', StateDict trained_state_dict)]"]
  by (simp add: mismatched_files_def trained_state_dict_def state_dict_def Network_def
      nn_Linear_def fresh_def)

subsection \<open>Configurable hidden layers\<close>

text \<open>
  Claim C6.  The hidden layer sizes are configurable: for every list of hidden sizes
  given to the \<open>Network\<close> constructor, directly or through the \<open>hidden_layers\<close> field of a
  checkpoint that \<open>load_checkpoint\<close> loads, the hidden layers of the constructed network
  have exactly those sizes in that order, chained from the input size to the output
  size.
\<close>

theorem hidden_sizes_configurable:
  assumes stored: "fs path = Some (Dict d)"
    and a: "map_of d ''input_size'' = Some (Size i)"
    and b: "map_of d ''output_size'' = Some (Size o')"
    and c: "map_of d ''hidden_layers'' = Some (Sizes hs)"
    and loaded: "load_checkpoint init fs path = Inr m"
  shows "map out_features (hidden_layers (Network init' i o' hs p)) = hs
       \<and> widths (Network init' i o' hs p) = zip (i # hs) (hs @ [o'])
       \<and> map out_features (hidden_layers m) = hs
       \<and> widths m = zip (i # hs) (hs @ [o'])"
proof -
  have direct: "widths (Network init' i o' hs p) = zip (i # hs) (hs @ [o'])" for init' p
    by (rule Network_widths)
  have out: "map out_features (hidden_layers n) = hs" if "widths n = zip (i # hs) (hs @ [o'])" for n
  proof -
    have "map snd (widths n) = map out_features (hidden_layers n) @ [out_features (output_layer n)]"
      by (simp add: widths_def comp_def)
    moreover have "map snd (zip (i # hs) (hs @ [o'])) = hs @ [o']"
      by (simp add: map_snd_zip)
    ultimately show ?thesis using that by simp
  qed
  from loaded obtain v where d: "map_of d ''state_dict'' = Some v"
    using stored a b c
    by (auto simp: load_checkpoint_def torch_load_def getitem_def fc_model_Network_def
        split: option.splits)
  from loaded obtain sd where sd: "v = StateDict sd"
    using stored a b c d
    by (cases v) (auto simp: load_checkpoint_def torch_load_def getitem_def fc_model_Network_def
        as_state_dict_def)
  from load_checkpoint_on_dict [where fs = fs and path = path and init = init, OF stored a b c d [unfolded sd]] loaded
  have "m = fst (load_state_dict (Network init i o' hs (1 / 2)) sd)"
    by (auto split: prod.splits sum.splits)
  then have "widths m = zip (i # hs) (hs @ [o'])"
    by (simp add: load_state_dict_widths direct)
  with direct out show ?thesis by blast
qed

theorem hidden_sizes_configurable_witness:
  "map out_features (hidden_layers (Network ones 784 10 [512, 256, 128] (1 / 2))) = [512, 256, 128]
   \<and> widths (Network ones 784 10 [512, 256, 128] (1 / 2))
       = [(784, 512), (512, 256), (256, 128), (128, 10)]
   \<and> (\<exists>m. load_checkpoint zeros
             (files (save_checkpoint_cell
                       \<lparr>model = Network ones 784 10 [512, 256, 128] (1 / 2), files = Map.empty\<rparr>))
             ''checkpoint.pth'' = Inr m
          \<and> map out_features (hidden_layers m) = [512, 256, 128]
          \<and> widths m = [(784, 512), (512, 256), (256, 128), (128, 10)])"
proof -
  let ?net = "Network ones 784 10 [512, 256, 128] (1 / 2)"
  let ?nb = "save_checkpoint_cell \<lparr>model = ?net, files = Map.empty\<rparr>"
  have stored: "files ?nb ''checkpoint.pth'' = Some (Dict (checkpoint ?net))"
    by (simp add: save_checkpoint_cell_def torch_save_def)
  have loaded: "load_checkpoint zeros (files ?nb) ''checkpoint.pth'' = Inr ?net"
    by (simp add: save_checkpoint_cell_def checkpoint_of_Network load_checkpoint_saved)
  from hidden_sizes_configurable
    [where fs = "files ?nb" and path = "''checkpoint.pth''" and init = zeros and i = 784
       and o' = 10 and hs = "[512, 256, 128]" and init' = ones and p = "1 / 2" and m = ?net,
     OF stored _ _ _ loaded]
  have "map out_features (hidden_layers ?net) = [512, 256, 128]
      \<and> widths ?net = zip [784, 512, 256, 128] ([512, 256, 128] @ [10])"
    by (simp add: checkpoint_of_Network)
  with loaded show ?thesis by simp
qed

subsection \<open>The fields of the checkpoint\<close>

text \<open>
  Claim C4, as amended.  The checkpoint mapping written to disk has exactly four fields:
  the input size, the output size, the list of hidden sizes and the learned-parameter
  container.  It has no field for the dropout probability: the mapping is the same
  whatever the model's dropout probability is.
\<close>

theorem checkpoint_fields:
  "map fst (checkpoint m) = [''input_size'', ''output_size'', ''hidden_layers'', ''state_dict'']
   \<and> map_of (checkpoint m) ''input_size'' = Some (Size 784)
   \<and> map_of (checkpoint m) ''output_size'' = Some (Size 10)
   \<and> map_of (checkpoint m) ''hidden_layers'' = Some (Sizes (map out_features (hidden_layers m)))
   \<and> map_of (checkpoint m) ''state_dict'' = Some (StateDict (state_dict m))
   \<and> checkpoint (m\<lparr>dropout := q\<rparr>) = checkpoint m"
  by (simp add: checkpoint_def state_dict_def)

theorem checkpoint_fields_witness:
  "map fst (checkpoint (Network ones 784 10 [512, 256, 128] (1 / 2)))
     = [''input_size'', ''output_size'', ''hidden_layers'', ''state_dict'']
   \<and> checkpoint ((Network ones 784 10 [512, 256, 128] (1 / 2))\<lparr>dropout := 1 / 5\<rparr>)
       = checkpoint (Network ones 784 10 [512, 256, 128] (1 / 2))"
  using checkpoint_fields [of "Network ones 784 10 [512, 256, 128] (1 / 2)" "1 / 5"]
  by simp

text \<open>
  The claim as stated, that the mapping has a field for the dropout probability, fails:
  two models that differ in their dropout probability write the same mapping.
\<close>

theorem checkpoint_fields_counterexample:
  "checkpoint (Network ones 784 10 [512, 256, 128] (1 / 5))
     = checkpoint (Network ones 784 10 [512, 256, 128] (1 / 2))
   \<and> dropout (Network ones 784 10 [512, 256, 128] (1 / 5))
       \<noteq> dropout (Network ones 784 10 [512, 256, 128] (1 / 2))"
  by (simp add: checkpoint_def state_dict_def Network_def)

end
